theory Spec2Isabelle
  imports Main "HOL-Library.Word"
begin

section \<open>The credential registry contract\<close>

text \<open>
  A shallow embedding of \<^verbatim>\<open>contracts/contracts/CredentialRegistry.sol\<close>.
  Solidity value types are machine words: \<^verbatim>\<open>bytes32\<close> and \<^verbatim>\<open>uint256\<close> are
  256-bit words, \<^verbatim>\<open>address\<close> is a 160-bit word and \<^verbatim>\<open>uint64\<close> a 64-bit word.
  The explicit conversion \<^verbatim>\<open>uint64(block.timestamp)\<close> keeps the low 64 bits, which
  is \<open>ucast\<close>.
\<close>

type_synonym bytes32 = "256 word"
type_synonym address = "160 word"
type_synonym uint64 = "64 word"
type_synonym uint256 = "256 word"

text \<open>
  The contract uses two role identifiers: \<^verbatim>\<open>DEFAULT_ADMIN_ROLE\<close> (the zero word of
  the imported \<^verbatim>\<open>AccessControl\<close>) and \<^verbatim>\<open>ISSUER_ROLE = keccak256("ISSUER_ROLE")\<close>.
  Only their being different matters, so they are the two values of a datatype. No
  function of the contract reads any other role.
\<close>

datatype role = DEFAULT_ADMIN_ROLE | ISSUER_ROLE

text \<open>\<^verbatim>\<open>struct Record { uint64 issuedAt; bool revoked; address issuer; }\<close>\<close>

record Record =
  issuedAt :: uint64
  revoked :: bool
  issuer :: address

text \<open>
  \<^verbatim>\<open>event Issued(bytes32 indexed docHash, address indexed issuer, uint64 issuedAt)\<close> and
  \<^verbatim>\<open>event Revoked(bytes32 indexed docHash, address indexed issuer, uint64 revokedAt)\<close>.
\<close>

datatype event =
  Issued bytes32 address uint64
| Revoked bytes32 address uint64

text \<open>
  The ways a call reverts. \<open>Unauthorized\<close> is the revert of the \<^verbatim>\<open>onlyRole\<close>
  modifier, \<open>AlreadyIssued\<close> is \<^verbatim>\<open>require(..., "already issued")\<close> and
  \<open>NotIssued\<close> is \<^verbatim>\<open>require(..., "not issued")\<close>. The contract has no other
  revert of its own.
\<close>

datatype error = Unauthorized | AlreadyIssued | NotIssued

text \<open>What a call sees of its transaction: \<^verbatim>\<open>msg.sender\<close> and \<^verbatim>\<open>block.timestamp\<close>.\<close>

record msg =
  msg_sender :: address
  block_timestamp :: uint256

text \<open>
  The storage of the contract: the role table of \<^verbatim>\<open>AccessControl\<close>, the mapping
  \<^verbatim>\<open>records\<close> (a Solidity mapping is total: a key never written reads as the zero
  record) and the \<^verbatim>\<open>Issued\<close>/\<^verbatim>\<open>Revoked\<close> events emitted so far, oldest first.
  These two are the events the contract declares; the log does not hold the role
  events that \<^verbatim>\<open>AccessControl\<close> emits on its own.
\<close>

record state =
  roles :: "role \<Rightarrow> address \<Rightarrow> bool"
  records :: "bytes32 \<Rightarrow> Record"
  events :: "event list"

definition zero_record :: Record where
  "zero_record = \<lparr>issuedAt = 0, revoked = False, issuer = 0\<rparr>"

definition empty_state :: state where
  "empty_state = \<lparr>roles = (\<lambda>r a. False), records = (\<lambda>h. zero_record), events = []\<rparr>"

subsection \<open>Access control\<close>

text \<open>
  The three operations of the imported \<^verbatim>\<open>AccessControl\<close> that the contract calls:
  \<^verbatim>\<open>hasRole\<close> reads the table, \<^verbatim>\<open>_grantRole\<close> and \<^verbatim>\<open>_revokeRole\<close> set and clear
  one entry.
\<close>

definition hasRole :: "state \<Rightarrow> role \<Rightarrow> address \<Rightarrow> bool" where
  "hasRole s r a = roles s r a"

definition grantRole_internal :: "role \<Rightarrow> address \<Rightarrow> state \<Rightarrow> state" where
  "grantRole_internal r a s = s\<lparr>roles := (roles s)(r := (roles s r)(a := True))\<rparr>"

definition revokeRole_internal :: "role \<Rightarrow> address \<Rightarrow> state \<Rightarrow> state" where
  "revokeRole_internal r a s = s\<lparr>roles := (roles s)(r := (roles s r)(a := False))\<rparr>"

text \<open>
  \<^verbatim>\<open>constructor(address admin)\<close>: both roles go to \<open>admin\<close>; nothing is issued
  and no credential event has been emitted.
\<close>

definition constructor :: "address \<Rightarrow> state" where
  "constructor admin =
     grantRole_internal ISSUER_ROLE admin
       (grantRole_internal DEFAULT_ADMIN_ROLE admin empty_state)"

text \<open>\<^verbatim>\<open>addIssuer\<close> and \<^verbatim>\<open>removeIssuer\<close>, both \<^verbatim>\<open>onlyRole(DEFAULT_ADMIN_ROLE)\<close>.\<close>

definition addIssuer :: "msg \<Rightarrow> address \<Rightarrow> state \<Rightarrow> error + state" where
  "addIssuer m account s =
     (if \<not> hasRole s DEFAULT_ADMIN_ROLE (msg_sender m) then Inl Unauthorized
      else Inr (grantRole_internal ISSUER_ROLE account s))"

definition removeIssuer :: "msg \<Rightarrow> address \<Rightarrow> state \<Rightarrow> error + state" where
  "removeIssuer m account s =
     (if \<not> hasRole s DEFAULT_ADMIN_ROLE (msg_sender m) then Inl Unauthorized
      else Inr (revokeRole_internal ISSUER_ROLE account s))"

text \<open>
  The contract inherits the external \<^verbatim>\<open>grantRole\<close> and \<^verbatim>\<open>revokeRole\<close> of
  \<^verbatim>\<open>AccessControl\<close>. The contract never changes a role's admin, so both are guarded
  by \<^verbatim>\<open>DEFAULT_ADMIN_ROLE\<close>.
\<close>

definition grantRole :: "msg \<Rightarrow> role \<Rightarrow> address \<Rightarrow> state \<Rightarrow> error + state" where
  "grantRole m r account s =
     (if \<not> hasRole s DEFAULT_ADMIN_ROLE (msg_sender m) then Inl Unauthorized
      else Inr (grantRole_internal r account s))"

definition revokeRole :: "msg \<Rightarrow> role \<Rightarrow> address \<Rightarrow> state \<Rightarrow> error + state" where
  "revokeRole m r account s =
     (if \<not> hasRole s DEFAULT_ADMIN_ROLE (msg_sender m) then Inl Unauthorized
      else Inr (revokeRole_internal r account s))"

subsection \<open>Main actions\<close>

text \<open>
  \<^verbatim>\<open>issue\<close>: the modifier \<^verbatim>\<open>onlyRole(ISSUER_ROLE)\<close> runs first, then the
  \<^verbatim>\<open>require\<close>, then the record is written and the event emitted.
\<close>

definition issue :: "msg \<Rightarrow> bytes32 \<Rightarrow> state \<Rightarrow> error + state" where
  "issue m docHash s =
     (if \<not> hasRole s ISSUER_ROLE (msg_sender m) then Inl Unauthorized
      else if issuedAt (records s docHash) \<noteq> 0 then Inl AlreadyIssued
      else Inr (s\<lparr>records := (records s)(docHash :=
                     \<lparr>issuedAt = ucast (block_timestamp m), revoked = False,
                      issuer = msg_sender m\<rparr>),
                  events := events s @
                     [Issued docHash (msg_sender m) (ucast (block_timestamp m))]\<rparr>))"

text \<open>\<^verbatim>\<open>revoke\<close>: the same modifier, then \<^verbatim>\<open>require(issuedAt != 0, "not issued")\<close>.\<close>

definition revoke :: "msg \<Rightarrow> bytes32 \<Rightarrow> state \<Rightarrow> error + state" where
  "revoke m docHash s =
     (if \<not> hasRole s ISSUER_ROLE (msg_sender m) then Inl Unauthorized
      else if \<not> issuedAt (records s docHash) \<noteq> 0 then Inl NotIssued
      else Inr (s\<lparr>records := (records s)(docHash :=
                     (records s docHash)\<lparr>revoked := True\<rparr>),
                  events := events s @
                     [Revoked docHash (msg_sender m) (ucast (block_timestamp m))]\<rparr>))"

text \<open>
  \<^verbatim>\<open>verify\<close> is a \<^verbatim>\<open>view\<close> function with no modifier and no \<^verbatim>\<open>require\<close>; it
  returns \<^verbatim>\<open>(bool issued, bool revoked, uint64 issuedAt, address issuer)\<close>.
\<close>

definition verify :: "state \<Rightarrow> bytes32 \<Rightarrow> bool \<times> bool \<times> uint64 \<times> address" where
  "verify s docHash =
     (let r = records s docHash
      in (issuedAt r \<noteq> 0, revoked r, issuedAt r, issuer r))"

text \<open>
  The same return values as the positional list a caller decodes (the frontend reads
  \<^verbatim>\<open>res[0]\<close>, \<^verbatim>\<open>res[1]\<close>, ...).
\<close>

datatype abi_value = Bool_value bool | Uint64_value uint64 | Address_value address

definition verify_returns :: "state \<Rightarrow> bytes32 \<Rightarrow> abi_value list" where
  "verify_returns s docHash =
     (case verify s docHash of
        (is_issued, is_revoked, at, by) \<Rightarrow>
          [Bool_value is_issued, Bool_value is_revoked, Uint64_value at, Address_value by])"

subsection \<open>Transactions\<close>

text \<open>
  The external state-changing functions as one datatype of calls. A transaction that
  reverts changes nothing: storage and the event log stay as they were.
\<close>

datatype call =
  Issue bytes32
| Revoke bytes32
| AddIssuer address
| RemoveIssuer address
| GrantRole role address
| RevokeRole role address

fun exec :: "msg \<Rightarrow> call \<Rightarrow> state \<Rightarrow> error + state" where
  "exec m (Issue h) s = issue m h s"
| "exec m (Revoke h) s = revoke m h s"
| "exec m (AddIssuer a) s = addIssuer m a s"
| "exec m (RemoveIssuer a) s = removeIssuer m a s"
| "exec m (GrantRole r a) s = grantRole m r a s"
| "exec m (RevokeRole r a) s = revokeRole m r a s"

definition transact :: "msg \<Rightarrow> call \<Rightarrow> state \<Rightarrow> state" where
  "transact m c s = (case exec m c s of Inl e \<Rightarrow> s | Inr s' \<Rightarrow> s')"

fun run :: "(msg \<times> call) list \<Rightarrow> state \<Rightarrow> state" where
  "run [] s = s"
| "run ((m, c) # cs) s = run cs (transact m c s)"

text \<open>The calls of a sequence that did not revert, in order.\<close>

fun successful :: "(msg \<times> call) list \<Rightarrow> state \<Rightarrow> (msg \<times> call) list" where
  "successful [] s = []"
| "successful ((m, c) # cs) s =
     (case exec m c s of
        Inl e \<Rightarrow> successful cs s
      | Inr s' \<Rightarrow> (m, c) # successful cs s')"

text \<open>
  What a call emits when it does not revert: \<^verbatim>\<open>issue\<close> and \<^verbatim>\<open>revoke\<close> each have one
  \<^verbatim>\<open>emit\<close>; the role functions of the contract emit no \<^verbatim>\<open>Issued\<close> or
  \<^verbatim>\<open>Revoked\<close> event.
\<close>

fun emitted :: "msg \<Rightarrow> call \<Rightarrow> event list" where
  "emitted m (Issue h) = [Issued h (msg_sender m) (ucast (block_timestamp m))]"
| "emitted m (Revoke h) = [Revoked h (msg_sender m) (ucast (block_timestamp m))]"
| "emitted m (AddIssuer a) = []"
| "emitted m (RemoveIssuer a) = []"
| "emitted m (GrantRole r a) = []"
| "emitted m (RevokeRole r a) = []"

text \<open>The calls that act on a credential record, as opposed to the role table.\<close>

fun credential_call :: "call \<Rightarrow> bool" where
  "credential_call (Issue h) = True"
| "credential_call (Revoke h) = True"
| "credential_call (AddIssuer a) = False"
| "credential_call (RemoveIssuer a) = False"
| "credential_call (GrantRole r a) = False"
| "credential_call (RevokeRole r a) = False"

subsection \<open>Issuance authorised by a signature\<close>

text \<open>
  The frontend signs a \<^verbatim>\<open>Credential\<close> value as EIP-712 typed data and submits it with
  \<^verbatim>\<open>reg.issueWithSignature(value, sig.v, sig.r, sig.s)\<close>. The value, the domain and the
  signature are as \<^verbatim>\<open>App.jsx\<close> builds them; the field \<^verbatim>\<open>ipfsCid\<close> is what the
  spec calls the storage reference.
\<close>

record Credential =
  docHash :: bytes32
  studentName :: string
  course :: string
  issueDate :: uint64
  ipfsCid :: string

record domain =
  domain_name :: string
  domain_version :: string
  chainId :: uint256
  verifyingContract :: address

record signature =
  sig_v :: "8 word"
  sig_r :: uint256
  sig_s :: uint256

text \<open>
  Modelled from the spec: the hash function under the typed-data encoder, which no file
  of the contract defines. A hash is a term over what was hashed, so two hashes are
  equal only when their inputs are: the spec's requirement that any change to a field
  changes the digest, taken over from the hash function, is built in.
\<close>

datatype encoded = Word uint256 | Text string | Keccak256 "encoded list"

text \<open>
  Modelled from the spec: the domain separator, built from
  \<open>{name, version, chainId, verifyingContract}\<close>, strings hashed and scalars encoded
  directly. The contract's encoder is not among its files.
\<close>

definition domainSeparator :: "domain \<Rightarrow> encoded" where
  "domainSeparator dmn =
     Keccak256
       [Keccak256 [Text ''EIP712Domain(string name,string version,uint256 chainId,address verifyingContract)''],
        Keccak256 [Text (domain_name dmn)],
        Keccak256 [Text (domain_version dmn)],
        Word (chainId dmn),
        Word (ucast (verifyingContract dmn))]"

text \<open>
  Modelled from the spec: the struct hash, built from the payload's type signature (as
  \<^verbatim>\<open>App.jsx\<close> declares the type) and its field encodings, strings hashed and scalars
  encoded directly.
\<close>

definition hashStruct :: "Credential \<Rightarrow> encoded" where
  "hashStruct p =
     Keccak256
       [Keccak256 [Text ''Credential(bytes32 docHash,string studentName,string course,uint64 issueDate,string ipfsCid)''],
        Word (docHash p),
        Keccak256 [Text (studentName p)],
        Keccak256 [Text (course p)],
        Word (ucast (issueDate p)),
        Keccak256 [Text (ipfsCid p)]]"

text \<open>
  Modelled from the spec: the final digest, the two hashes combined under the fixed
  prefix \<^verbatim>\<open>0x19 0x01\<close>.
\<close>

definition typed_data_digest :: "domain \<Rightarrow> Credential \<Rightarrow> encoded" where
  "typed_data_digest dmn p =
     Keccak256 [Text [CHR 0x19, CHR 0x01], domainSeparator dmn, hashStruct p]"

text \<open>
  Modelled from the spec: the errors of the signature path. \<open>InvalidSignature\<close> is
  the verifier's failure (a malformed signature, a scalar out of range, a failed
  recovery); the others are the errors of the direct path.
\<close>

datatype signed_error = InvalidSignature | Failed error

text \<open>
  Modelled from the spec: \<^verbatim>\<open>issueWithSignature\<close>, which the contract file does not
  define (only its caller in \<^verbatim>\<open>App.jsx\<close> is present). The verifier recovers a signer
  from the digest and the signature, failing with \<open>InvalidSignature\<close> when recovery
  fails; the recovered identity must hold the issuer role, otherwise
  \<open>Unauthorized\<close>; the hash must be unissued, otherwise \<open>AlreadyIssued\<close>; on success
  \<open>issuedAt\<close> is the current time, \<open>issuer\<close> the recovered identity, and an
  \<^verbatim>\<open>Issued\<close> event is appended. Storing the storage reference is optional in the
  spec; \<^verbatim>\<open>Record\<close> has no field for it, so it is not stored. Elliptic-curve
  recovery is the parameter \<open>ecrecover\<close>. The order of the checks follows
  \<^verbatim>\<open>issue\<close>: authorisation first.
\<close>

definition issueWithSignature ::
  "(encoded \<Rightarrow> signature \<Rightarrow> address option) \<Rightarrow> domain \<Rightarrow>
   msg \<Rightarrow> Credential \<Rightarrow> signature \<Rightarrow> state \<Rightarrow> signed_error + state" where
  "issueWithSignature ecrecover dmn m p sg s =
     (case ecrecover (typed_data_digest dmn p) sg of
        None \<Rightarrow> Inl InvalidSignature
      | Some signer \<Rightarrow>
          if \<not> hasRole s ISSUER_ROLE signer then Inl (Failed Unauthorized)
          else if issuedAt (records s (docHash p)) \<noteq> 0 then Inl (Failed AlreadyIssued)
          else Inr (s\<lparr>records := (records s)(docHash p :=
                         \<lparr>issuedAt = ucast (block_timestamp m), revoked = False,
                          issuer = signer\<rparr>),
                      events := events s @
                         [Issued (docHash p) signer (ucast (block_timestamp m))]\<rparr>))"

text \<open>
  A change of one field of a payload.
\<close>

datatype field_change =
  Change_docHash bytes32
| Change_studentName string
| Change_course string
| Change_issueDate uint64
| Change_ipfsCid string

fun mutate :: "field_change \<Rightarrow> Credential \<Rightarrow> Credential" where
  "mutate (Change_docHash h) p = p\<lparr>docHash := h\<rparr>"
| "mutate (Change_studentName n) p = p\<lparr>studentName := n\<rparr>"
| "mutate (Change_course c) p = p\<lparr>course := c\<rparr>"
| "mutate (Change_issueDate d) p = p\<lparr>issueDate := d\<rparr>"
| "mutate (Change_ipfsCid r) p = p\<lparr>ipfsCid := r\<rparr>"

section \<open>Basic facts\<close>

lemmas call_defs = issue_def revoke_def addIssuer_def removeIssuer_def grantRole_def revokeRole_def
  grantRole_internal_def revokeRole_internal_def hasRole_def

lemma transact_Inl: "exec m c s = Inl e \<Longrightarrow> transact m c s = s"
  by (simp add: transact_def)

lemma transact_Inr: "exec m c s = Inr s' \<Longrightarrow> transact m c s = s'"
  by (simp add: transact_def)

lemma exec_records:
  "exec m c s = Inr s' \<Longrightarrow>
   records s' h =
     (case c of
        Issue d \<Rightarrow> if d = h then \<lparr>issuedAt = ucast (block_timestamp m), revoked = False,
                                  issuer = msg_sender m\<rparr> else records s h
      | Revoke d \<Rightarrow> if d = h then (records s h)\<lparr>revoked := True\<rparr> else records s h
      | _ \<Rightarrow> records s h)"
  by (cases c) (auto simp: call_defs split: if_splits)

lemma exec_issuedAt_zero:
  "exec m (Issue h) s = Inr s' \<Longrightarrow> issuedAt (records s h) = 0"
  by (auto simp: call_defs split: if_splits)

lemma exec_revoke_issued:
  "exec m (Revoke h) s = Inr s' \<Longrightarrow> issuedAt (records s h) \<noteq> 0"
  by (auto simp: call_defs split: if_splits)

lemma exec_keeps_sentinel:
  assumes ok: "\<And>h. issuedAt (records s h) = 0 \<Longrightarrow> \<not> revoked (records s h)"
    and ex: "exec m c s = Inr s'"
    and z: "issuedAt (records s' h) = 0"
  shows "\<not> revoked (records s' h)"
proof (cases c)
  case (Issue d)
  with ex have "issuedAt (records s d) = 0" by (simp add: exec_issuedAt_zero)
  with ok z Issue exec_records [OF ex, of h] show ?thesis by (auto split: if_splits)
next
  case (Revoke d)
  with ex have "issuedAt (records s d) \<noteq> 0" using exec_revoke_issued by blast
  with ok z Revoke exec_records [OF ex, of h] show ?thesis by (auto split: if_splits)
qed (use ok z exec_records [OF ex, of h] in auto)

lemma transact_keeps_sentinel:
  assumes ok: "\<And>h. issuedAt (records s h) = 0 \<Longrightarrow> \<not> revoked (records s h)"
    and z: "issuedAt (records (transact m c s) h) = 0"
  shows "\<not> revoked (records (transact m c s) h)"
proof (cases "exec m c s")
  case (Inl e)
  with ok z show ?thesis by (simp add: transact_Inl)
next
  case (Inr s')
  with z exec_keeps_sentinel [OF ok Inr, of h] show ?thesis by (simp add: transact_Inr)
qed

lemma run_keeps_sentinel:
  "(\<And>h. issuedAt (records s h) = 0 \<Longrightarrow> \<not> revoked (records s h)) \<Longrightarrow>
   issuedAt (records (run cs s) h) = 0 \<Longrightarrow> \<not> revoked (records (run cs s) h)"
proof (induction cs arbitrary: s)
  case Nil
  then show ?case by simp
next
  case (Cons x cs)
  obtain m c where x: "x = (m, c)" by (cases x)
  have "\<And>h. issuedAt (records (transact m c s) h) = 0 \<Longrightarrow> \<not> revoked (records (transact m c s) h)"
    using Cons.prems(1) by (rule transact_keeps_sentinel)
  with Cons.IH [of "transact m c s"] Cons.prems(2) x show ?case by simp
qed

lemma constructor_records: "records (constructor admin) h = zero_record"
  by (simp add: constructor_def grantRole_internal_def empty_state_def)

lemma reachable_sentinel:
  "issuedAt (records (run cs (constructor admin)) h) = 0 \<Longrightarrow>
   \<not> revoked (records (run cs (constructor admin)) h)"
  by (rule run_keeps_sentinel) (simp_all add: constructor_records zero_record_def)

lemma transact_issuedAt_immutable:
  "issuedAt (records s h) \<noteq> 0 \<Longrightarrow>
   issuedAt (records (transact m c s) h) = issuedAt (records s h)"
proof (cases "exec m c s")
  case (Inl e)
  then show ?thesis by (simp add: transact_Inl)
next
  case (Inr s')
  assume nz: "issuedAt (records s h) \<noteq> 0"
  show ?thesis
  proof (cases c)
    case (Issue d)
    with Inr have "issuedAt (records s d) = 0" by (simp add: exec_issuedAt_zero)
    with nz Issue exec_records [OF Inr, of h] Inr show ?thesis by (auto simp: transact_Inr)
  qed (use exec_records [OF Inr, of h] Inr in \<open>auto simp: transact_Inr\<close>)
qed

lemma transact_revoked_monotone:
  assumes ok: "issuedAt (records s h) = 0 \<Longrightarrow> \<not> revoked (records s h)"
    and r: "revoked (records s h)"
  shows "revoked (records (transact m c s) h)"
proof (cases "exec m c s")
  case (Inl e)
  with r show ?thesis by (simp add: transact_Inl)
next
  case (Inr s')
  show ?thesis
  proof (cases c)
    case (Issue d)
    with Inr have "issuedAt (records s d) = 0" by (simp add: exec_issuedAt_zero)
    with ok r Issue exec_records [OF Inr, of h] Inr show ?thesis by (auto simp: transact_Inr)
  qed (use r exec_records [OF Inr, of h] Inr in \<open>auto simp: transact_Inr\<close>)
qed

lemmas eval_defs = call_defs transact_def constructor_def empty_state_def zero_record_def
  verify_def verify_returns_def Let_def


subsection \<open>Events\<close>

lemma exec_events: "exec m c s = Inr s' \<Longrightarrow> events s' = events s @ emitted m c"
  by (cases c) (auto simp: call_defs split: if_splits)

lemma run_events:
  "events (run cs s) = events s @ concat (map (\<lambda>(m, c). emitted m c) (successful cs s))"
proof (induction cs arbitrary: s)
  case Nil
  then show ?case by simp
next
  case (Cons x cs)
  obtain m c where x: "x = (m, c)" by (cases x)
  show ?case
  proof (cases "exec m c s")
    case (Inl e)
    with Cons.IH [of s] x show ?thesis by (simp add: transact_Inl)
  next
    case (Inr s')
    with Cons.IH [of s'] x exec_events [OF Inr] show ?thesis by (simp add: transact_Inr)
  qed
qed



subsection \<open>Unissued hashes\<close>



subsection \<open>The timestamp conversion\<close>

lemma unat_uint64_cast: "unat (ucast w :: uint64) = unat (w :: uint256) mod 2 ^ 64"
  by (simp add: unsigned_ucast_eq take_bit_eq_mod)

lemma uint64_cast_zero: "(ucast w :: uint64) = 0 \<longleftrightarrow> unat (w :: uint256) mod 2 ^ 64 = 0"
  by (simp add: word_unat_eq_iff unat_uint64_cast)

subsection \<open>Roles\<close>

lemma exec_roles:
  "exec m c s = Inr s' \<Longrightarrow> c \<noteq> AddIssuer x \<Longrightarrow> c \<noteq> GrantRole ISSUER_ROLE x \<Longrightarrow>
   \<not> hasRole s ISSUER_ROLE x \<Longrightarrow> \<not> hasRole s' ISSUER_ROLE x"
  by (cases c) (auto simp: call_defs split: if_splits)

lemma run_not_regranted:
  "\<forall>m'. (m', AddIssuer x) \<notin> set (successful cs s) \<and>
         (m', GrantRole ISSUER_ROLE x) \<notin> set (successful cs s) \<Longrightarrow>
   \<not> hasRole s ISSUER_ROLE x \<Longrightarrow> \<not> hasRole (run cs s) ISSUER_ROLE x"
proof (induction cs arbitrary: s)
  case Nil
  then show ?case by simp
next
  case (Cons y cs)
  obtain m c where y: "y = (m, c)" by (cases y)
  show ?case
  proof (cases "exec m c s")
    case (Inl e)
    with Cons y show ?thesis by (simp add: transact_Inl)
  next
    case (Inr s')
    from Cons.prems(1) y Inr have c: "c \<noteq> AddIssuer x" "c \<noteq> GrantRole ISSUER_ROLE x"
      and rest: "\<forall>m'. (m', AddIssuer x) \<notin> set (successful cs s') \<and>
         (m', GrantRole ISSUER_ROLE x) \<notin> set (successful cs s')" by auto
    from exec_roles [OF Inr c Cons.prems(2)] have "\<not> hasRole s' ISSUER_ROLE x" .
    with Cons.IH [OF rest] y Inr show ?thesis by (simp add: transact_Inr)
  qed
qed

lemma removeIssuer_removes:
  "removeIssuer ma x s = Inr s' \<or> revokeRole ma ISSUER_ROLE x s = Inr s' \<Longrightarrow>
   \<not> hasRole s' ISSUER_ROLE x"
  by (auto simp: removeIssuer_def revokeRole_def revokeRole_internal_def hasRole_def
      split: if_splits)

lemma not_issuer_fails:
  "\<not> hasRole s ISSUER_ROLE (msg_sender m) \<Longrightarrow>
   issue m h s = Inl Unauthorized \<and> revoke m h s = Inl Unauthorized \<and>
   transact m (Issue h) s = s \<and> transact m (Revoke h) s = s"
  by (simp add: issue_def revoke_def transact_def)

subsection \<open>The shape of the event log\<close>

lemma emitted_credential: "emitted m c = [] \<longleftrightarrow> \<not> credential_call c"
  by (cases c) simp_all

lemma length_emitted: "length (emitted m c) = (if credential_call c then 1 else 0)"
  by (cases c) simp_all

lemma concat_emitted_filter:
  "concat (map (\<lambda>(m, c). emitted m c) (filter (\<lambda>(m, c). credential_call c) xs)) =
   concat (map (\<lambda>(m, c). emitted m c) xs)"
  by (induction xs) (auto simp: emitted_credential)

lemma length_concat_emitted:
  "length (concat (map (\<lambda>(m, c). emitted m c) xs)) =
   length (filter (\<lambda>(m, c). credential_call c) xs)"
  by (induction xs) (auto simp: length_emitted emitted_credential)

lemma constructor_events: "events (constructor admin) = []"
  by (simp add: constructor_def grantRole_internal_def empty_state_def)

lemma run_append: "run (cs @ cs') s = run cs' (run cs s)"
  by (induction cs arbitrary: s) auto

subsection \<open>The typed-data digest\<close>

lemma issueDate_word_inj:
  assumes "(ucast (a :: uint64) :: uint256) = ucast b"
  shows "a = b"
proof -
  have small: "unat x mod 2 ^ 256 = unat x" for x :: uint64
  proof -
    have "unat x < 2 ^ 64" using unsigned_less [of x] by simp
    then show ?thesis by simp
  qed
  from assms have "unat (ucast a :: uint256) = unat (ucast b :: uint256)" by simp
  then have "unat a mod 2 ^ 256 = unat b mod 2 ^ 256"
    by (simp add: unsigned_ucast_eq take_bit_eq_mod)
  then have "unat a = unat b" by (simp only: small)
  then show ?thesis by (simp only: word_unat_eq_iff)
qed

lemma typed_data_digest_inj:
  "typed_data_digest dmn p = typed_data_digest dmn p' \<Longrightarrow> p = p'"
  by (cases p, cases p') (auto simp: typed_data_digest_def hashStruct_def dest: issueDate_word_inj)

section \<open>Claims\<close>

text \<open>
  C1, for the model of \<^verbatim>\<open>issueWithSignature\<close> above. Let the
  signature recover identity \<open>a\<close> from the typed-data digest of payload \<open>p\<close> under
  the contract's domain, let \<open>a\<close> hold the issuer role and let the hash of \<open>p\<close> be
  unissued. Then \<^verbatim>\<open>issueWithSignature\<close> succeeds, the record of the hash names
  \<open>a\<close> as issuer and an \<^verbatim>\<open>Issued\<close> event for \<open>a\<close> is appended. A payload that
  differs from \<open>p\<close> by a change of one field has another digest; provided the
  signature recovers a holder of the issuer role from no digest but the signed one
  (unforgeability) and recovery on the new digest yields some identity, submitting the
  changed payload with the same signature fails with \<open>Unauthorized\<close>, before and after
  the original was accepted.
\<close>

theorem issueWithSignature_authorized:
  assumes "ecrecover (typed_data_digest dmn p) sg = Some a"
    and "hasRole s ISSUER_ROLE a"
    and "issuedAt (records s (docHash p)) = 0"
  shows "\<exists>s'. issueWithSignature ecrecover dmn m p sg s = Inr s' \<and>
           records s' (docHash p) =
             \<lparr>issuedAt = ucast (block_timestamp m), revoked = False, issuer = a\<rparr> \<and>
           events s' = events s @ [Issued (docHash p) a (ucast (block_timestamp m))] \<and>
           (\<forall>c n.
              (\<forall>d b. ecrecover d sg = Some b \<and> hasRole s ISSUER_ROLE b \<longrightarrow>
                 d = typed_data_digest dmn p) \<and>
              mutate c p \<noteq> p \<and>
              ecrecover (typed_data_digest dmn (mutate c p)) sg \<noteq> None \<longrightarrow>
                issueWithSignature ecrecover dmn n (mutate c p) sg s = Inl (Failed Unauthorized) \<and>
                issueWithSignature ecrecover dmn n (mutate c p) sg s' = Inl (Failed Unauthorized))"
proof -
  let ?s' = "s\<lparr>records := (records s)(docHash p :=
                 \<lparr>issuedAt = ucast (block_timestamp m), revoked = False, issuer = a\<rparr>),
               events := events s @ [Issued (docHash p) a (ucast (block_timestamp m))]\<rparr>"
  from assms have ok: "issueWithSignature ecrecover dmn m p sg s = Inr ?s'"
    by (simp add: issueWithSignature_def)
  have mut: "issueWithSignature ecrecover dmn n (mutate c p) sg s = Inl (Failed Unauthorized) \<and>
             issueWithSignature ecrecover dmn n (mutate c p) sg ?s' = Inl (Failed Unauthorized)"
    if bind: "\<forall>d b. ecrecover d sg = Some b \<and> hasRole s ISSUER_ROLE b \<longrightarrow>
                 d = typed_data_digest dmn p"
      and ne: "mutate c p \<noteq> p"
      and rec: "ecrecover (typed_data_digest dmn (mutate c p)) sg \<noteq> None"
    for c n
  proof -
    from rec obtain b where b: "ecrecover (typed_data_digest dmn (mutate c p)) sg = Some b"
      by blast
    have "\<not> hasRole s ISSUER_ROLE b"
    proof
      assume "hasRole s ISSUER_ROLE b"
      with bind b have "typed_data_digest dmn (mutate c p) = typed_data_digest dmn p" by blast
      then have "mutate c p = p" by (rule typed_data_digest_inj)
      with ne show False by contradiction
    qed
    with b show ?thesis by (simp add: issueWithSignature_def hasRole_def)
  qed
  from ok mut show ?thesis by (intro exI [of _ ?s']) simp
qed

text \<open>
  An instance: the recovery function maps the digest of the signed payload to address 1,
  the admin and issuer, and every other digest to address 2, which holds no role. The
  signed payload is accepted with issuer 1; the payload with the course changed is
  refused.
\<close>

theorem issueWithSignature_authorized_witness:
  "(\<exists>s'. issueWithSignature
            (\<lambda>d sg. if d = typed_data_digest
                 \<lparr>domain_name = ''CredentialRegistry'', domain_version = ''1'', chainId = 11155111,
                  verifyingContract = 0x5FbDB2315678afecb367f032d93F642f64180aa3\<rparr>
                 \<lparr>docHash = 5, studentName = ''Ada'', course = ''Logic'', issueDate = 7,
                  ipfsCid = ''Qm''\<rparr> then Some 1 else Some 2)
            \<lparr>domain_name = ''CredentialRegistry'', domain_version = ''1'', chainId = 11155111,
             verifyingContract = 0x5FbDB2315678afecb367f032d93F642f64180aa3\<rparr>
            \<lparr>msg_sender = 3, block_timestamp = 9\<rparr>
            \<lparr>docHash = 5, studentName = ''Ada'', course = ''Logic'', issueDate = 7,
             ipfsCid = ''Qm''\<rparr>
            \<lparr>sig_v = 27, sig_r = 1, sig_s = 1\<rparr> (constructor 1) = Inr s' \<and>
          issuer (records s' 5) = 1) \<and>
   issueWithSignature
     (\<lambda>d sg. if d = typed_data_digest
          \<lparr>domain_name = ''CredentialRegistry'', domain_version = ''1'', chainId = 11155111,
           verifyingContract = 0x5FbDB2315678afecb367f032d93F642f64180aa3\<rparr>
          \<lparr>docHash = 5, studentName = ''Ada'', course = ''Logic'', issueDate = 7,
           ipfsCid = ''Qm''\<rparr> then Some 1 else Some 2)
     \<lparr>domain_name = ''CredentialRegistry'', domain_version = ''1'', chainId = 11155111,
      verifyingContract = 0x5FbDB2315678afecb367f032d93F642f64180aa3\<rparr>
     \<lparr>msg_sender = 3, block_timestamp = 9\<rparr>
     \<lparr>docHash = 5, studentName = ''Ada'', course = ''Physics'', issueDate = 7,
      ipfsCid = ''Qm''\<rparr>
     \<lparr>sig_v = 27, sig_r = 1, sig_s = 1\<rparr> (constructor 1) = Inl (Failed Unauthorized)"
proof -
  let ?D = "\<lparr>domain_name = ''CredentialRegistry'', domain_version = ''1'', chainId = 11155111,
             verifyingContract = 0x5FbDB2315678afecb367f032d93F642f64180aa3\<rparr>"
  let ?P = "\<lparr>docHash = 5, studentName = ''Ada'', course = ''Logic'', issueDate = 7,
             ipfsCid = ''Qm''\<rparr>"
  let ?R = "\<lambda>d (sg :: signature). if d = typed_data_digest ?D ?P then Some (1 :: address) else Some 2"
  let ?M = "\<lparr>msg_sender = 3, block_timestamp = 9\<rparr>"
  let ?G = "\<lparr>sig_v = 27, sig_r = 1, sig_s = 1\<rparr>"
  let ?c = "Change_course ''Physics''"
  have a: "?R (typed_data_digest ?D ?P) ?G = Some 1" by simp
  have b: "hasRole (constructor 1) ISSUER_ROLE 1" by (simp add: eval_defs)
  have c: "issuedAt (records (constructor 1) (docHash ?P)) = 0" by (simp add: eval_defs)
  have bind: "\<forall>d b. ?R d ?G = Some b \<and> hasRole (constructor 1) ISSUER_ROLE b \<longrightarrow>
                d = typed_data_digest ?D ?P"
    by (simp add: eval_defs)
  have ne: "mutate ?c ?P \<noteq> ?P" by simp
  have rec: "?R (typed_data_digest ?D (mutate ?c ?P)) ?G \<noteq> None" by simp
  from issueWithSignature_authorized [of ?R ?D ?P ?G 1 "constructor 1" ?M, OF a b c]
  obtain s' where ok: "issueWithSignature ?R ?D ?M ?P ?G (constructor 1) = Inr s'"
    and r: "records s' (docHash ?P) =
             \<lparr>issuedAt = ucast (block_timestamp ?M), revoked = False, issuer = 1\<rparr>"
    and mut: "\<forall>c n.
              (\<forall>d b. ?R d ?G = Some b \<and> hasRole (constructor 1) ISSUER_ROLE b \<longrightarrow>
                 d = typed_data_digest ?D ?P) \<and>
              mutate c ?P \<noteq> ?P \<and>
              ?R (typed_data_digest ?D (mutate c ?P)) ?G \<noteq> None \<longrightarrow>
                issueWithSignature ?R ?D n (mutate c ?P) ?G (constructor 1) = Inl (Failed Unauthorized) \<and>
                issueWithSignature ?R ?D n (mutate c ?P) ?G s' = Inl (Failed Unauthorized)"
    by blast
  from mut bind ne rec
  have "issueWithSignature ?R ?D ?M (mutate ?c ?P) ?G (constructor 1) = Inl (Failed Unauthorized)"
    by blast
  moreover from r have "issuer (records s' 5) = 1" by simp
  ultimately show ?thesis using ok by simp
qed






text \<open>
  C3. \<^verbatim>\<open>revoke\<close> has no guard against a record that is already revoked:
  its only \<^verbatim>\<open>require\<close> is \<open>issuedAt \<noteq> 0\<close>. For a hash whose record is already
  revoked, a revoke by a caller holding the issuer role succeeds again; the records and
  the role table stay as they are and one more \<^verbatim>\<open>Revoked\<close> event is appended.
\<close>

theorem revoke_again_succeeds:
  assumes "hasRole s ISSUER_ROLE (msg_sender m)"
    and "issuedAt (records s h) \<noteq> 0"
    and "revoked (records s h)"
  shows "\<exists>s'. revoke m h s = Inr s' \<and> records s' = records s \<and> roles s' = roles s \<and>
           events s' = events s @ [Revoked h (msg_sender m) (ucast (block_timestamp m))]"
  using assms by (simp add: revoke_def fun_upd_idem)

text \<open>
  Against a failing second revoke in C3: after issue and revoke of hash 5 the second
  revoke does not revert, and the log holds two \<^verbatim>\<open>Revoked\<close> entries.
\<close>

theorem revoke_again_counterexample:
  "revoked (records (run [(\<lparr>msg_sender = 1, block_timestamp = 7\<rparr>, Issue 5),
                          (\<lparr>msg_sender = 1, block_timestamp = 8\<rparr>, Revoke 5)] (constructor 1)) 5) \<and>
   \<not> isl (revoke \<lparr>msg_sender = 1, block_timestamp = 9\<rparr> 5
            (run [(\<lparr>msg_sender = 1, block_timestamp = 7\<rparr>, Issue 5),
                  (\<lparr>msg_sender = 1, block_timestamp = 8\<rparr>, Revoke 5)] (constructor 1))) \<and>
   events (transact \<lparr>msg_sender = 1, block_timestamp = 9\<rparr> (Revoke 5)
            (run [(\<lparr>msg_sender = 1, block_timestamp = 7\<rparr>, Issue 5),
                  (\<lparr>msg_sender = 1, block_timestamp = 8\<rparr>, Revoke 5)] (constructor 1))) =
     [Issued 5 1 7, Revoked 5 1 8, Revoked 5 1 9]"
  by (simp add: eval_defs)

text \<open>
  An instance of \<open>revoke_again_succeeds\<close> in the same state.
\<close>

theorem revoke_again_succeeds_witness:
  "events (transact \<lparr>msg_sender = 1, block_timestamp = 9\<rparr> (Revoke 5)
            (run [(\<lparr>msg_sender = 1, block_timestamp = 7\<rparr>, Issue 5),
                  (\<lparr>msg_sender = 1, block_timestamp = 8\<rparr>, Revoke 5)] (constructor 1))) =
     events (run [(\<lparr>msg_sender = 1, block_timestamp = 7\<rparr>, Issue 5),
                  (\<lparr>msg_sender = 1, block_timestamp = 8\<rparr>, Revoke 5)] (constructor 1)) @
     [Revoked 5 1 9]"
proof -
  let ?s = "run [(\<lparr>msg_sender = 1, block_timestamp = 7\<rparr>, Issue 5),
                 (\<lparr>msg_sender = 1, block_timestamp = 8\<rparr>, Revoke 5)] (constructor 1)"
  let ?m = "\<lparr>msg_sender = 1, block_timestamp = 9\<rparr>"
  have a: "hasRole ?s ISSUER_ROLE (msg_sender ?m)" by (simp add: eval_defs)
  have b: "issuedAt (records ?s 5) \<noteq> 0" by (simp add: eval_defs)
  have c: "revoked (records ?s 5)" by (simp add: eval_defs)
  from revoke_again_succeeds [OF a b c] obtain s' where
    "revoke ?m 5 ?s = Inr s'" and "events s' = events ?s @ [Revoked 5 (msg_sender ?m) (ucast (block_timestamp ?m))]"
    by blast
  then show ?thesis by (simp add: transact_def)
qed

text \<open>
  C4. For a hash with a nonzero \<open>issuedAt\<close> (issued, revoked or not),
  \<^verbatim>\<open>issue\<close> reverts and the whole state, record and event log included, stays as
  it was. The modifier runs before the \<^verbatim>\<open>require\<close>: a caller holding the issuer role
  gets \<open>AlreadyIssued\<close>, any other caller gets \<open>Unauthorized\<close>.
\<close>

theorem issue_again_fails:
  assumes "issuedAt (records s h) \<noteq> 0"
  shows "issue m h s =
           Inl (if hasRole s ISSUER_ROLE (msg_sender m) then AlreadyIssued else Unauthorized) \<and>
         transact m (Issue h) s = s"
  using assms by (simp add: issue_def transact_def)

text \<open>
  Against \<open>AlreadyIssued\<close> for any caller in C4: address 2 holds no role, and its
  issue of the already issued hash 5 reverts with another error.
\<close>

theorem issue_again_counterexample:
  "issuedAt (records (run [(\<lparr>msg_sender = 1, block_timestamp = 7\<rparr>, Issue 5)] (constructor 1)) 5) \<noteq> 0 \<and>
   issue \<lparr>msg_sender = 2, block_timestamp = 8\<rparr> 5
     (run [(\<lparr>msg_sender = 1, block_timestamp = 7\<rparr>, Issue 5)] (constructor 1)) \<noteq> Inl AlreadyIssued"
  by (simp add: eval_defs)

text \<open>
  An instance of \<open>issue_again_fails\<close> for both kinds of caller.
\<close>

theorem issue_again_fails_witness:
  "issue \<lparr>msg_sender = 1, block_timestamp = 8\<rparr> 5
     (run [(\<lparr>msg_sender = 1, block_timestamp = 7\<rparr>, Issue 5)] (constructor 1)) = Inl AlreadyIssued \<and>
   issue \<lparr>msg_sender = 2, block_timestamp = 8\<rparr> 5
     (run [(\<lparr>msg_sender = 1, block_timestamp = 7\<rparr>, Issue 5)] (constructor 1)) = Inl Unauthorized \<and>
   transact \<lparr>msg_sender = 1, block_timestamp = 8\<rparr> (Issue 5)
     (run [(\<lparr>msg_sender = 1, block_timestamp = 7\<rparr>, Issue 5)] (constructor 1)) =
     run [(\<lparr>msg_sender = 1, block_timestamp = 7\<rparr>, Issue 5)] (constructor 1)"
proof -
  let ?s = "run [(\<lparr>msg_sender = 1, block_timestamp = 7\<rparr>, Issue 5)] (constructor 1)"
  have nz: "issuedAt (records ?s 5) \<noteq> 0" by (simp add: eval_defs)
  have a: "hasRole ?s ISSUER_ROLE (msg_sender \<lparr>msg_sender = 1, block_timestamp = 8\<rparr>)"
    by (simp add: eval_defs)
  have b: "\<not> hasRole ?s ISSUER_ROLE (msg_sender \<lparr>msg_sender = 2, block_timestamp = 8\<rparr>)"
    by (simp add: eval_defs)
  from issue_again_fails [OF nz, of "\<lparr>msg_sender = 1, block_timestamp = 8\<rparr>"] a
    issue_again_fails [OF nz, of "\<lparr>msg_sender = 2, block_timestamp = 8\<rparr>"] b
  show ?thesis by simp
qed

text \<open>
  C5. In every state reached from the constructor by a sequence of calls, a
  record with \<open>issuedAt = 0\<close> is not revoked; and a further call of any kind leaves a
  nonzero \<open>issuedAt\<close> as it is and leaves a set \<open>revoked\<close> flag set.
\<close>

theorem record_invariants:
  "(issuedAt (records (run cs (constructor admin)) h) = 0 \<longrightarrow>
      revoked (records (run cs (constructor admin)) h) = False) \<and>
   (issuedAt (records (run cs (constructor admin)) h) \<noteq> 0 \<longrightarrow>
      issuedAt (records (transact m c (run cs (constructor admin))) h) =
      issuedAt (records (run cs (constructor admin)) h)) \<and>
   (revoked (records (run cs (constructor admin)) h) \<longrightarrow>
      revoked (records (transact m c (run cs (constructor admin))) h))"
  using reachable_sentinel [of cs admin h] transact_issuedAt_immutable [of "run cs (constructor admin)" h m c]
    transact_revoked_monotone [of "run cs (constructor admin)" h m c]
  by blast

text \<open>
  An instance: hash 5 is issued at time 7 and revoked, hash 6 is untouched; a further
  issue of hash 5 reverts and changes neither field.
\<close>

theorem record_invariants_witness:
  "issuedAt (records (run [(\<lparr>msg_sender = 1, block_timestamp = 7\<rparr>, Issue 5),
                           (\<lparr>msg_sender = 1, block_timestamp = 8\<rparr>, Revoke 5)] (constructor 1)) 6) = 0 \<and>
   revoked (records (run [(\<lparr>msg_sender = 1, block_timestamp = 7\<rparr>, Issue 5),
                           (\<lparr>msg_sender = 1, block_timestamp = 8\<rparr>, Revoke 5)] (constructor 1)) 6) = False \<and>
   issuedAt (records (run [(\<lparr>msg_sender = 1, block_timestamp = 7\<rparr>, Issue 5),
                           (\<lparr>msg_sender = 1, block_timestamp = 8\<rparr>, Revoke 5)] (constructor 1)) 5) = 7 \<and>
   revoked (records (run [(\<lparr>msg_sender = 1, block_timestamp = 7\<rparr>, Issue 5),
                           (\<lparr>msg_sender = 1, block_timestamp = 8\<rparr>, Revoke 5)] (constructor 1)) 5) \<and>
   issuedAt (records (transact \<lparr>msg_sender = 1, block_timestamp = 9\<rparr> (Issue 5)
      (run [(\<lparr>msg_sender = 1, block_timestamp = 7\<rparr>, Issue 5),
            (\<lparr>msg_sender = 1, block_timestamp = 8\<rparr>, Revoke 5)] (constructor 1))) 5) = 7 \<and>
   revoked (records (transact \<lparr>msg_sender = 1, block_timestamp = 9\<rparr> (Issue 5)
      (run [(\<lparr>msg_sender = 1, block_timestamp = 7\<rparr>, Issue 5),
            (\<lparr>msg_sender = 1, block_timestamp = 8\<rparr>, Revoke 5)] (constructor 1))) 5)"
proof -
  let ?s = "run [(\<lparr>msg_sender = 1, block_timestamp = 7\<rparr>, Issue 5),
                 (\<lparr>msg_sender = 1, block_timestamp = 8\<rparr>, Revoke 5)] (constructor 1)"
  have z: "issuedAt (records ?s 6) = 0"
    by (simp add: eval_defs)
  have nz: "issuedAt (records ?s 5) = 7"
    by (simp add: eval_defs)
  have r: "revoked (records ?s 5)"
    by (simp add: eval_defs)
  from nz have nz': "issuedAt (records ?s 5) \<noteq> 0" by simp
  from z record_invariants [of "[(\<lparr>msg_sender = 1, block_timestamp = 7\<rparr>, Issue 5),
                 (\<lparr>msg_sender = 1, block_timestamp = 8\<rparr>, Revoke 5)]" 1 6]
  have a: "revoked (records ?s 6) = False" by blast
  from nz' r record_invariants [of "[(\<lparr>msg_sender = 1, block_timestamp = 7\<rparr>, Issue 5),
                 (\<lparr>msg_sender = 1, block_timestamp = 8\<rparr>, Revoke 5)]" 1 5
                 "\<lparr>msg_sender = 1, block_timestamp = 9\<rparr>" "Issue 5"]
  have b: "issuedAt (records (transact \<lparr>msg_sender = 1, block_timestamp = 9\<rparr> (Issue 5) ?s) 5) =
           issuedAt (records ?s 5)"
    and c: "revoked (records (transact \<lparr>msg_sender = 1, block_timestamp = 9\<rparr> (Issue 5) ?s) 5)"
    by blast+
  from z a nz r b c show ?thesis by simp
qed

text \<open>
  C6. For a hash with \<open>issuedAt = 0\<close> and a caller holding the issuer role,
  \<^verbatim>\<open>issue\<close> at block time \<open>now\<close> succeeds and \<^verbatim>\<open>verify\<close> then yields
  \<open>(True, False, now, caller)\<close>: the caller is the identity that authorised the
  issuance and \<open>now\<close> the time it was applied. The block time of a transaction is a
  Unix time in seconds, positive and below \<open>2^64\<close>, so the conversion to
  \<^verbatim>\<open>uint64\<close> keeps its value.
\<close>

theorem issue_then_verify:
  assumes "hasRole s ISSUER_ROLE (msg_sender m)"
    and "issuedAt (records s h) = 0"
    and "0 < unat (block_timestamp m)"
    and "unat (block_timestamp m) < 2 ^ 64"
  shows "\<exists>s' t. issue m h s = Inr s' \<and>
           verify s' h = (True, False, t, msg_sender m) \<and>
           t = ucast (block_timestamp m) \<and>
           unat t = unat (block_timestamp m)"
proof -
  from assms(3,4) have small: "unat (block_timestamp m) mod 2 ^ 64 = unat (block_timestamp m)"
    by simp
  with assms(3) have nz: "(ucast (block_timestamp m) :: uint64) \<noteq> 0"
    by (simp add: uint64_cast_zero)
  from small have "unat (ucast (block_timestamp m) :: uint64) = unat (block_timestamp m)"
    by (simp add: unat_uint64_cast)
  with assms(1,2) nz show ?thesis
    by (simp add: issue_def verify_def Let_def)
qed

text \<open>
  An instance at block time 7.
\<close>

theorem issue_then_verify_witness:
  "verify (transact \<lparr>msg_sender = 1, block_timestamp = 7\<rparr> (Issue 5) (constructor 1)) 5 =
     (True, False, 7, 1)"
proof -
  let ?m = "\<lparr>msg_sender = 1, block_timestamp = 7\<rparr>"
  have a: "hasRole (constructor 1) ISSUER_ROLE (msg_sender ?m)" by (simp add: eval_defs)
  have b: "issuedAt (records (constructor 1) 5) = 0" by (simp add: eval_defs)
  have c: "0 < unat (block_timestamp ?m)" by simp
  have d: "unat (block_timestamp ?m) < 2 ^ 64" by simp
  from issue_then_verify [OF a b c d] obtain s' t where
    i: "issue ?m 5 (constructor 1) = Inr s'"
    and v: "verify s' 5 = (True, False, t, msg_sender ?m)"
    and t: "t = ucast (block_timestamp ?m)"
    by blast
  from t have "t = 7" by simp
  with i v show ?thesis by (simp add: transact_def)
qed

text \<open>
  C7. A \<^verbatim>\<open>revoke\<close> that does not revert sets the \<open>revoked\<close> flag of the
  hash's record and changes nothing else in it; the record of every other hash and the
  role table are unchanged, and one \<^verbatim>\<open>Revoked\<close> event is appended. \<^verbatim>\<open>verify\<close> then
  yields \<open>(True, True, t, issuer)\<close> with the stored time and issuer; after an issue
  followed by the revoke these are the time and caller of that issue.
\<close>

theorem revoke_frame:
  assumes "revoke m h s = Inr s'"
  shows "records s' h = (records s h)\<lparr>revoked := True\<rparr> \<and>
         (\<forall>h'. h' \<noteq> h \<longrightarrow> records s' h' = records s h') \<and>
         roles s' = roles s \<and>
         events s' = events s @ [Revoked h (msg_sender m) (ucast (block_timestamp m))] \<and>
         verify s' h = (True, True, issuedAt (records s h), issuer (records s h)) \<and>
         (\<forall>m0 s0. issue m0 h s0 = Inr s \<longrightarrow>
            verify s' h = (True, True, ucast (block_timestamp m0), msg_sender m0))"
  using assms
  by (auto simp: revoke_def issue_def verify_def Let_def split: if_splits)

text \<open>
  An instance: issue of hash 5 at time 7 by address 1, then revoke at time 8.
\<close>

theorem revoke_frame_witness:
  "verify (transact \<lparr>msg_sender = 1, block_timestamp = 8\<rparr> (Revoke 5)
     (transact \<lparr>msg_sender = 1, block_timestamp = 7\<rparr> (Issue 5) (constructor 1))) 5 =
     (True, True, 7, 1) \<and>
   records (transact \<lparr>msg_sender = 1, block_timestamp = 8\<rparr> (Revoke 5)
     (transact \<lparr>msg_sender = 1, block_timestamp = 7\<rparr> (Issue 5) (constructor 1))) 6 =
   records (transact \<lparr>msg_sender = 1, block_timestamp = 7\<rparr> (Issue 5) (constructor 1)) 6"
proof -
  let ?mi = "\<lparr>msg_sender = 1, block_timestamp = 7\<rparr>"
  let ?m = "\<lparr>msg_sender = 1, block_timestamp = 8\<rparr>"
  let ?s = "transact ?mi (Issue 5) (constructor 1)"
  let ?s' = "transact ?m (Revoke 5) ?s"
  have i: "issue ?mi 5 (constructor 1) = Inr ?s" by (simp add: eval_defs)
  have r: "revoke ?m 5 ?s = Inr ?s'" by (simp add: eval_defs)
  have ne: "(6 :: bytes32) \<noteq> 5" by simp
  from revoke_frame [OF r] i ne
  have "verify ?s' 5 = (True, True, ucast (block_timestamp ?mi), msg_sender ?mi)"
    and "records ?s' 6 = records ?s 6"
    by blast+
  then show ?thesis by simp
qed

text \<open>
  C8. After \<^verbatim>\<open>removeIssuer(x)\<close> (or the inherited
  \<^verbatim>\<open>revokeRole(ISSUER_ROLE, x)\<close>) by an admin, and for as long as no later
  call grants \<open>x\<close> the issuer role again, every \<^verbatim>\<open>issue\<close> and \<^verbatim>\<open>revoke\<close> by
  \<open>x\<close> reverts with \<open>Unauthorized\<close> and leaves the state as it was. A
  \<^verbatim>\<open>revoke\<close> of a hash with \<open>issuedAt = 0\<close> by a caller holding the issuer role
  reverts with \<open>NotIssued\<close>.
\<close>

theorem removed_issuer_unauthorized:
  "((removeIssuer ma x s = Inr s' \<or> revokeRole ma ISSUER_ROLE x s = Inr s') \<and>
    msg_sender m = x \<and>
    (\<forall>m'. (m', AddIssuer x) \<notin> set (successful cs s') \<and>
          (m', GrantRole ISSUER_ROLE x) \<notin> set (successful cs s')) \<longrightarrow>
      issue m h (run cs s') = Inl Unauthorized \<and>
      revoke m h (run cs s') = Inl Unauthorized \<and>
      transact m (Issue h) (run cs s') = run cs s' \<and>
      transact m (Revoke h) (run cs s') = run cs s') \<and>
   (hasRole s ISSUER_ROLE (msg_sender m) \<and> issuedAt (records s h) = 0 \<longrightarrow>
      revoke m h s = Inl NotIssued \<and> transact m (Revoke h) s = s)"
proof -
  have "issue m h (run cs s') = Inl Unauthorized \<and>
      revoke m h (run cs s') = Inl Unauthorized \<and>
      transact m (Issue h) (run cs s') = run cs s' \<and>
      transact m (Revoke h) (run cs s') = run cs s'"
    if r: "removeIssuer ma x s = Inr s' \<or> revokeRole ma ISSUER_ROLE x s = Inr s'"
      and x: "msg_sender m = x"
      and n: "\<forall>m'. (m', AddIssuer x) \<notin> set (successful cs s') \<and>
          (m', GrantRole ISSUER_ROLE x) \<notin> set (successful cs s')"
  proof -
    from r have "\<not> hasRole s' ISSUER_ROLE x" by (rule removeIssuer_removes)
    with n have "\<not> hasRole (run cs s') ISSUER_ROLE x" by (rule run_not_regranted)
    with x show ?thesis by (simp add: not_issuer_fails)
  qed
  moreover have "revoke m h s = Inl NotIssued \<and> transact m (Revoke h) s = s"
    if "hasRole s ISSUER_ROLE (msg_sender m)" and "issuedAt (records s h) = 0"
    using that by (simp add: revoke_def transact_def)
  ultimately show ?thesis by blast
qed

text \<open>
  An instance: address 2 is made an issuer and removed again; after a further issue by
  the admin its calls revert. While it held the role, its revoke of the unissued hash 5
  reverted with \<open>NotIssued\<close>.
\<close>

theorem removed_issuer_unauthorized_witness:
  "issue \<lparr>msg_sender = 2, block_timestamp = 10\<rparr> 5
     (run [(\<lparr>msg_sender = 1, block_timestamp = 9\<rparr>, Issue 5)]
       (transact \<lparr>msg_sender = 1, block_timestamp = 8\<rparr> (RemoveIssuer 2)
         (transact \<lparr>msg_sender = 1, block_timestamp = 7\<rparr> (AddIssuer 2) (constructor 1))))
     = Inl Unauthorized \<and>
   revoke \<lparr>msg_sender = 2, block_timestamp = 10\<rparr> 5
     (run [(\<lparr>msg_sender = 1, block_timestamp = 9\<rparr>, Issue 5)]
       (transact \<lparr>msg_sender = 1, block_timestamp = 8\<rparr> (RemoveIssuer 2)
         (transact \<lparr>msg_sender = 1, block_timestamp = 7\<rparr> (AddIssuer 2) (constructor 1))))
     = Inl Unauthorized \<and>
   revoke \<lparr>msg_sender = 2, block_timestamp = 8\<rparr> 5
       (transact \<lparr>msg_sender = 1, block_timestamp = 7\<rparr> (AddIssuer 2) (constructor 1))
     = Inl NotIssued"
proof -
  let ?s = "transact \<lparr>msg_sender = 1, block_timestamp = 7\<rparr> (AddIssuer 2) (constructor 1)"
  let ?ma = "\<lparr>msg_sender = 1, block_timestamp = 8\<rparr>"
  let ?s' = "transact ?ma (RemoveIssuer 2) ?s"
  let ?cs = "[(\<lparr>msg_sender = 1, block_timestamp = 9\<rparr>, Issue 5)]"
  let ?m = "\<lparr>msg_sender = 2, block_timestamp = 10\<rparr>"
  let ?mr = "\<lparr>msg_sender = 2, block_timestamp = 8\<rparr>"
  have r: "removeIssuer ?ma 2 ?s = Inr ?s'" by (simp add: eval_defs)
  have x: "msg_sender ?m = 2" by simp
  have n: "\<forall>m'. (m', AddIssuer 2) \<notin> set (successful ?cs ?s') \<and>
          (m', GrantRole ISSUER_ROLE 2) \<notin> set (successful ?cs ?s')"
    by (simp add: eval_defs)
  have i: "hasRole ?s ISSUER_ROLE (msg_sender ?mr)" by (simp add: eval_defs)
  have z: "issuedAt (records ?s 5) = 0" by (simp add: eval_defs)
  from r x n removed_issuer_unauthorized [of ?ma 2 ?s ?s' ?m ?cs 5]
  have a: "issue ?m 5 (run ?cs ?s') = Inl Unauthorized \<and>
           revoke ?m 5 (run ?cs ?s') = Inl Unauthorized" by blast
  from i z removed_issuer_unauthorized [of ?ma 2 ?s ?s' ?mr ?cs 5]
  have b: "revoke ?mr 5 ?s = Inl NotIssued" by blast
  from a b show ?thesis by simp
qed

text \<open>
  C9. The event log of a state reached from the constructor holds exactly
  one entry for every \<^verbatim>\<open>issue\<close> or \<^verbatim>\<open>revoke\<close> call that did not revert, in the
  order of the calls; an entry's sequence number is its position in the log, so the
  numbers are \<open>0, 1, ..., N - 1\<close>. Running more calls only appends. A call that
  reverts appends nothing, and neither does a call of a role function.
\<close>

theorem event_log_order:
  "events (run cs (constructor admin)) =
     concat (map (\<lambda>(m, c). emitted m c)
       (filter (\<lambda>(m, c). credential_call c) (successful cs (constructor admin)))) \<and>
   length (events (run cs (constructor admin))) =
     length (filter (\<lambda>(m, c). credential_call c) (successful cs (constructor admin))) \<and>
   map fst (enumerate 0 (events (run cs (constructor admin)))) =
     [0 ..< length (filter (\<lambda>(m, c). credential_call c) (successful cs (constructor admin)))] \<and>
   events (run (cs @ cs') (constructor admin)) =
     events (run cs (constructor admin)) @
     concat (map (\<lambda>(m, c). emitted m c) (successful cs' (run cs (constructor admin)))) \<and>
   (exec m c s = Inl e \<longrightarrow> events (transact m c s) = events s) \<and>
   (exec m c s = Inr s' \<and> \<not> credential_call c \<longrightarrow> events (transact m c s) = events s)"
proof -
  have a: "events (run cs (constructor admin)) =
     concat (map (\<lambda>(m, c). emitted m c)
       (filter (\<lambda>(m, c). credential_call c) (successful cs (constructor admin))))"
    by (simp add: run_events constructor_events concat_emitted_filter)
  have b: "length (events (run cs (constructor admin))) =
     length (filter (\<lambda>(m, c). credential_call c) (successful cs (constructor admin)))"
    by (simp add: run_events constructor_events length_concat_emitted)
  from b have c: "map fst (enumerate 0 (events (run cs (constructor admin)))) =
     [0 ..< length (filter (\<lambda>(m, c). credential_call c) (successful cs (constructor admin)))]"
    by (simp add: map_fst_enumerate)
  have d: "events (run (cs @ cs') (constructor admin)) =
     events (run cs (constructor admin)) @
     concat (map (\<lambda>(m, c). emitted m c) (successful cs' (run cs (constructor admin))))"
    by (simp only: run_append run_events [of cs' "run cs (constructor admin)"])
  have e: "exec m c s = Inl e \<longrightarrow> events (transact m c s) = events s"
    by (simp add: transact_Inl)
  have f: "exec m c s = Inr s' \<and> \<not> credential_call c \<longrightarrow> events (transact m c s) = events s"
    using exec_events [of m c s s'] by (auto simp: transact_Inr emitted_credential)
  from a b c d e f show ?thesis by blast
qed

text \<open>
  Against one entry per successful mutating call in C9: two \<^verbatim>\<open>addIssuer\<close> calls by
  the admin both succeed (the second grants a role already held) and the log stays
  empty.
\<close>

theorem event_log_counterexample:
  "successful [(\<lparr>msg_sender = 1, block_timestamp = 7\<rparr>, AddIssuer 2),
               (\<lparr>msg_sender = 1, block_timestamp = 8\<rparr>, AddIssuer 2)] (constructor 1) =
     [(\<lparr>msg_sender = 1, block_timestamp = 7\<rparr>, AddIssuer 2),
      (\<lparr>msg_sender = 1, block_timestamp = 8\<rparr>, AddIssuer 2)] \<and>
   events (run [(\<lparr>msg_sender = 1, block_timestamp = 7\<rparr>, AddIssuer 2),
                (\<lparr>msg_sender = 1, block_timestamp = 8\<rparr>, AddIssuer 2)] (constructor 1)) = []"
  by (simp add: eval_defs)

text \<open>
  An instance: of four calls, the issue by address 2 reverts (it holds no role yet) and
  the other three succeed; the log holds the two entries of the issue and the revoke,
  in that order. A reverted issue and a successful \<^verbatim>\<open>addIssuer\<close> append nothing.
\<close>

theorem event_log_order_witness:
  "events (run [(\<lparr>msg_sender = 1, block_timestamp = 7\<rparr>, Issue 5),
                (\<lparr>msg_sender = 2, block_timestamp = 8\<rparr>, Issue 6),
                (\<lparr>msg_sender = 1, block_timestamp = 9\<rparr>, AddIssuer 2),
                (\<lparr>msg_sender = 2, block_timestamp = 10\<rparr>, Revoke 5)] (constructor 1)) =
     [Issued 5 1 7, Revoked 5 2 10] \<and>
   events (transact \<lparr>msg_sender = 2, block_timestamp = 7\<rparr> (Issue 5) (constructor 1)) =
     events (constructor 1) \<and>
   events (transact \<lparr>msg_sender = 1, block_timestamp = 7\<rparr> (AddIssuer 2) (constructor 1)) =
     events (constructor 1)"
proof -
  let ?m = "\<lparr>msg_sender = 2, block_timestamp = 7\<rparr>"
  let ?ma = "\<lparr>msg_sender = 1, block_timestamp = 7\<rparr>"
  let ?cs = "[(\<lparr>msg_sender = 1, block_timestamp = 7\<rparr>, Issue 5),
              (\<lparr>msg_sender = 2, block_timestamp = 8\<rparr>, Issue 6),
              (\<lparr>msg_sender = 1, block_timestamp = 9\<rparr>, AddIssuer 2),
              (\<lparr>msg_sender = 2, block_timestamp = 10\<rparr>, Revoke 5)]"
  have a: "exec ?m (Issue 5) (constructor 1) = Inl Unauthorized" by (simp add: eval_defs)
  have b: "exec ?ma (AddIssuer 2) (constructor 1) =
      Inr (transact ?ma (AddIssuer 2) (constructor 1)) \<and> \<not> credential_call (AddIssuer 2)"
    by (simp add: eval_defs)
  have ok: "successful ?cs (constructor 1) =
      [(\<lparr>msg_sender = 1, block_timestamp = 7\<rparr>, Issue 5),
       (\<lparr>msg_sender = 1, block_timestamp = 9\<rparr>, AddIssuer 2),
       (\<lparr>msg_sender = 2, block_timestamp = 10\<rparr>, Revoke 5)]"
    by (simp add: eval_defs)
  from event_log_order [of ?cs 1 "[]" ?m "Issue 5" "constructor 1" Unauthorized]
  have "events (run ?cs (constructor 1)) =
     concat (map (\<lambda>(m, c). emitted m c)
       (filter (\<lambda>(m, c). credential_call c) (successful ?cs (constructor 1))))"
    by blast
  then have c: "events (run ?cs (constructor 1)) = [Issued 5 1 7, Revoked 5 2 10]"
    by (simp only: ok) simp
  from a event_log_order [of "[]" 1 "[]" ?m "Issue 5" "constructor 1" Unauthorized]
  have d: "events (transact ?m (Issue 5) (constructor 1)) = events (constructor 1)" by blast
  from b event_log_order [of "[]" 1 "[]" ?ma "AddIssuer 2" "constructor 1" _
      "transact ?ma (AddIssuer 2) (constructor 1)"]
  have e: "events (transact ?ma (AddIssuer 2) (constructor 1)) = events (constructor 1)" by blast
  from c d e show ?thesis by simp
qed

text \<open>
  C10. A successful \<^verbatim>\<open>issue\<close> stores the block time modulo \<open>2^64\<close>.
  When the block time is a multiple of \<open>2^64\<close> the stored \<open>issuedAt\<close> is 0,
  \<^verbatim>\<open>verify\<close> reports the hash as not issued, and a later \<^verbatim>\<open>issue\<close> of the same hash
  by any caller holding the issuer role succeeds again: the log then holds two
  \<^verbatim>\<open>Issued\<close> entries for the hash.
\<close>

theorem issue_timestamp_wraps:
  assumes "hasRole s ISSUER_ROLE (msg_sender m)"
    and "issuedAt (records s h) = 0"
  shows "\<exists>s'. issue m h s = Inr s' \<and>
           unat (issuedAt (records s' h)) = unat (block_timestamp m) mod 2 ^ 64 \<and>
           (unat (block_timestamp m) mod 2 ^ 64 = 0 \<longrightarrow>
              issuedAt (records s' h) = 0 \<and> fst (verify s' h) = False \<and>
              (\<forall>n. hasRole s' ISSUER_ROLE (msg_sender n) \<longrightarrow>
                 (\<exists>s''. issue n h s' = Inr s'' \<and>
                    events s'' = events s @
                      [Issued h (msg_sender m) 0,
                       Issued h (msg_sender n) (ucast (block_timestamp n))])))"
  using assms
  by (simp add: issue_def verify_def Let_def unat_uint64_cast uint64_cast_zero hasRole_def)

text \<open>
  An instance: hash 5 issued at block time \<open>2^64\<close> and again at block time 7.
\<close>

theorem issue_timestamp_wraps_witness:
  "events (transact \<lparr>msg_sender = 1, block_timestamp = 7\<rparr> (Issue 5)
     (transact \<lparr>msg_sender = 1, block_timestamp = 2 ^ 64\<rparr> (Issue 5) (constructor 1))) =
   [Issued 5 1 0, Issued 5 1 7]"
proof -
  let ?m = "\<lparr>msg_sender = 1, block_timestamp = 2 ^ 64\<rparr>"
  let ?n = "\<lparr>msg_sender = 1, block_timestamp = 7\<rparr>"
  have a: "hasRole (constructor 1) ISSUER_ROLE (msg_sender ?m)" by (simp add: eval_defs)
  have b: "issuedAt (records (constructor 1) 5) = 0" by (simp add: eval_defs)
  have c: "unat (block_timestamp ?m) mod 2 ^ 64 = 0" by simp
  from issue_timestamp_wraps [OF a b] c obtain s' where
    i: "issue ?m 5 (constructor 1) = Inr s'"
    and again: "\<forall>n. hasRole s' ISSUER_ROLE (msg_sender n) \<longrightarrow>
                 (\<exists>s''. issue n 5 s' = Inr s'' \<and>
                    events s'' = events (constructor 1) @
                      [Issued 5 (msg_sender ?m) 0,
                       Issued 5 (msg_sender n) (ucast (block_timestamp n))])"
    by blast
  from i have r: "hasRole s' ISSUER_ROLE (msg_sender ?n)"
    using a by (auto simp: issue_def hasRole_def split: if_splits)
  with again obtain s'' where "issue ?n 5 s' = Inr s''"
    and "events s'' = events (constructor 1) @
           [Issued 5 (msg_sender ?m) 0, Issued 5 (msg_sender ?n) (ucast (block_timestamp ?n))]"
    by blast
  with i show ?thesis by (simp add: transact_def constructor_events)
qed

end
